theory Spec2Isabelle
  imports Main
begin

section \<open>JavaScript values of the converter\<close>

text \<open>
  The converter (\<open>createConverter\<close>) maps objects of the host editor (\<open>code.*\<close>) to
  values of the wire protocol (\<open>proto.*\<close>). Host types keep their names, wire types are
  prefixed \<open>proto_\<close>; record fields carry a short prefix of their type because several
  types share field names (\<open>range\<close>, \<open>uri\<close>, \<open>version\<close>, ...).

  An optional property is an \<open>option\<close>: \<open>None\<close> is \<open>undefined\<close> (a property that was
  never assigned, or assigned \<open>undefined\<close>; both are omitted when the value is
  serialised). Where the source tells \<open>undefined\<close> from \<open>null\<close> the three-valued type
  \<open>nullable\<close> is used.
\<close>

datatype 'a nullable = Undefined | Null | is_Value: Value 'a

text \<open>Truthiness of a string and of a number, as \<open>if (x)\<close> and \<open>!!x\<close> test it.\<close>

definition truthy_string :: "string option \<Rightarrow> bool" where
  "truthy_string s = (case s of None \<Rightarrow> False | Some t \<Rightarrow> t \<noteq> [])"

definition truthy_number :: "int option \<Rightarrow> bool" where
  "truthy_number n = (case n of None \<Rightarrow> False | Some k \<Rightarrow> k \<noteq> 0)"

text \<open>An object or an array is truthy whenever it is there, also an empty array.\<close>

definition truthy_object :: "'a option \<Rightarrow> bool" where
  "truthy_object x = (case x of None \<Rightarrow> False | Some _ \<Rightarrow> True)"

text \<open>A boolean property as a condition: it is there and \<open>true\<close>.\<close>

definition truthy_boolean :: "bool option \<Rightarrow> bool" where
  "truthy_boolean b = (b = Some True)"

text \<open>
  Numbers. A JavaScript number is a double; the numbers of this model are the doubles
  that are integers, written as the integer they denote. A double has 53 bits of
  precision, so every integer up to \<open>2 ^ 53\<close> in magnitude is a double and beyond that
  only the multiples of a power of two are. The sum of two doubles is their exact sum
  rounded to the nearest double, a tie going to the double whose last bit is 0.

  \<open>double_ulp m\<close> is the distance between the doubles around the magnitude \<open>m\<close>,
  \<open>double_round m\<close> the double nearest to \<open>m\<close>. One more than the largest finite
  double rounds back to it, so adding 1 never leaves the finite doubles.
\<close>

function double_ulp :: "nat \<Rightarrow> nat" where
  "double_ulp m = (if m < 2 ^ 53 then 1 else 2 * double_ulp (m div 2))"
  by pat_completeness auto
termination
  by (relation "measure (\<lambda>m. m)") auto

declare double_ulp.simps [simp del]

definition double_round :: "nat \<Rightarrow> nat" where
  "double_round m =
     (let u = double_ulp m; q = m div u; r = m mod u
      in if 2 * r < u then q * u
         else if u < 2 * r then (q + 1) * u
         else if even q then q * u else (q + 1) * u)"

definition number_of_int :: "int \<Rightarrow> int" where
  "number_of_int n =
     (if n < 0 then - int (double_round (nat (- n))) else int (double_round (nat n)))"

definition number_plus :: "int \<Rightarrow> int \<Rightarrow> int" where
  \<comment> \<open>\<open>a + b\<close> on numbers\<close>
  "number_plus a b = number_of_int (a + b)"

text \<open>
  The statement \<open>if (c) { result = f(result); }\<close>: most of the converters build their
  result by a sequence of such guarded assignments.
\<close>

definition assign_if :: "bool \<Rightarrow> ('r \<Rightarrow> 'r) \<Rightarrow> 'r \<Rightarrow> 'r" where
  "assign_if c f r = (if c then f r else r)"

text \<open>Primitive values of type \<open>any\<close>, and arrays that are passed around by reference.\<close>

datatype js_value = JNumber int | JString string | JBoolean bool | JNull

type_synonym ref = nat

text \<open>
  The store of arrays: the array at address \<open>r\<close> is \<open>h ! r\<close>. Allocation appends, so the
  address of a new array is the length of the store and was no address before. An
  address that an object holds is an address of the store (\<open>r < length h\<close>): JavaScript
  has no dangling references.
\<close>

type_synonym heap = "js_value list list"

definition slice :: "heap \<Rightarrow> ref \<Rightarrow> ref \<times> heap" where
  \<comment> \<open>\<open>Array.prototype.slice()\<close> without arguments: a new array with the same elements.\<close>
  "slice h r = (length h, h @ [h ! r])"


section \<open>URIs\<close>

text \<open>
  A \<open>code.Uri\<close> is an object; the string is what its \<open>toString()\<close> returns. Being an
  object it is truthy whatever that string is.
\<close>

datatype Uri = Uri string

type_synonym URIConverter = "Uri \<Rightarrow> string"

fun nullConverter :: URIConverter where
  "nullConverter (Uri s) = s"

definition createConverter_uriConverter :: "URIConverter option \<Rightarrow> URIConverter" where
  \<comment> \<open>\<open>_uriConverter = uriConverter || nullConverter\<close>; every converter below takes it as
      its first argument.\<close>
  "createConverter_uriConverter uriConverter =
     (case uriConverter of None \<Rightarrow> nullConverter | Some f \<Rightarrow> f)"

definition asUri :: "URIConverter \<Rightarrow> Uri \<Rightarrow> string" where
  "asUri conv v = conv v"


section \<open>Positions, ranges and locations\<close>

record Position =
  pos_line :: int
  pos_character :: int

record proto_Position =
  wpos_line :: int
  wpos_character :: int

record Range =
  rng_start :: Position
  rng_end :: Position

record proto_Range =
  wrng_start :: proto_Position
  wrng_end :: proto_Position

record Location =
  loc_uri :: Uri
  loc_range :: Range

record proto_Location =
  wloc_uri :: string
  wloc_range :: proto_Range

definition Range_new :: "int \<Rightarrow> int \<Rightarrow> int \<Rightarrow> int \<Rightarrow> Range" where
  \<comment> \<open>\<open>new code.Range(startLine, startCharacter, endLine, endCharacter)\<close>\<close>
  "Range_new sl sc el ec =
     \<lparr>rng_start = \<lparr>pos_line = sl, pos_character = sc\<rparr>,
      rng_end = \<lparr>pos_line = el, pos_character = ec\<rparr>\<rparr>"

definition asWorkerPosition :: "Position \<Rightarrow> proto_Position" where
  "asWorkerPosition position =
     \<lparr>wpos_line = pos_line position, wpos_character = pos_character position\<rparr>"

text \<open>
  \<open>asPosition\<close>, \<open>asRange\<close> and \<open>asLocation\<close> are overloaded. The function on
  \<open>nullable\<close> is the implementation signature; the function with suffix \<open>_value\<close> is the
  overload for a value that is there (what the implementation returns after its
  \<open>undefined\<close>/\<open>null\<close> test), which the other converters call.
\<close>

definition asPosition_value :: "Position \<Rightarrow> proto_Position" where
  "asPosition_value v = \<lparr>wpos_line = pos_line v, wpos_character = pos_character v\<rparr>"

fun asPosition :: "Position nullable \<Rightarrow> proto_Position nullable" where
  "asPosition Undefined = Undefined"
| "asPosition Null = Null"
| "asPosition (Value v) = Value (asPosition_value v)"

fun asPositions :: "Position list \<Rightarrow> proto_Position list" where
  "asPositions [] = []"
| "asPositions (elem # rest) = asPosition_value elem # asPositions rest"

definition asRange_value :: "Range \<Rightarrow> proto_Range" where
  "asRange_value v =
     \<lparr>wrng_start = asPosition_value (rng_start v), wrng_end = asPosition_value (rng_end v)\<rparr>"

fun asRange :: "Range nullable \<Rightarrow> proto_Range nullable" where
  "asRange Undefined = Undefined"
| "asRange Null = Null"
| "asRange (Value v) = Value (asRange_value v)"

text \<open>
  Modelled from the spec: \<open>proto.Location.create\<close> belongs to the protocol types library,
  which is not among the sources; it builds the location from its two arguments.
\<close>

definition Location_create :: "string \<Rightarrow> proto_Range \<Rightarrow> proto_Location" where
  "Location_create u r = \<lparr>wloc_uri = u, wloc_range = r\<rparr>"

definition asLocation_value :: "URIConverter \<Rightarrow> Location \<Rightarrow> proto_Location" where
  "asLocation_value conv v =
     Location_create (asUri conv (loc_uri v)) (asRange_value (loc_range v))"

fun asLocation :: "URIConverter \<Rightarrow> Location nullable \<Rightarrow> proto_Location nullable" where
  "asLocation conv Undefined = Undefined"
| "asLocation conv Null = Null"
| "asLocation conv (Value v) = Value (asLocation_value conv v)"


section \<open>Diagnostics\<close>

text \<open>
  The host's enumerations are numbers at run time, so a value outside the enumeration
  can reach the converter: the last constructor stands for any other number.
\<close>

datatype DiagnosticSeverity =
  Severity_Error | Severity_Warning | Severity_Information | Severity_Hint
  | Severity_Other int

datatype proto_DiagnosticSeverity =
  Wire_Error | Wire_Warning | Wire_Information | Wire_Hint

datatype DiagnosticTag = Tag_Unnecessary | Tag_Deprecated | Tag_Other int

datatype proto_DiagnosticTag = Wire_Unnecessary | Wire_Deprecated

text \<open>The \<open>code\<close> of a diagnostic: a number, a string, or some other value.\<close>

datatype DiagnosticCode = Code_Number int | Code_String string | Code_Object

record DiagnosticRelatedInformation =
  rel_message :: string
  rel_location :: Location

record proto_DiagnosticRelatedInformation =
  wrel_message :: string
  wrel_location :: proto_Location

record Diagnostic =
  diag_range :: Range
  diag_message :: string
  diag_severity :: "DiagnosticSeverity option"
  diag_code :: "DiagnosticCode option"
  diag_tags :: "DiagnosticTag list option"
  diag_relatedInformation :: "DiagnosticRelatedInformation list option"
  diag_source :: "string option"

record proto_Diagnostic =
  wdiag_range :: proto_Range
  wdiag_message :: string
  wdiag_severity :: "proto_DiagnosticSeverity option"
  wdiag_code :: "DiagnosticCode option"
  wdiag_tags :: "proto_DiagnosticTag list option"
  wdiag_relatedInformation :: "proto_DiagnosticRelatedInformation list option"
  wdiag_source :: "string option"

fun asDiagnosticSeverity :: "DiagnosticSeverity \<Rightarrow> proto_DiagnosticSeverity option" where
  \<comment> \<open>the \<open>switch\<close> has no default: any other number falls through to \<open>undefined\<close>\<close>
  "asDiagnosticSeverity Severity_Error = Some Wire_Error"
| "asDiagnosticSeverity Severity_Warning = Some Wire_Warning"
| "asDiagnosticSeverity Severity_Information = Some Wire_Information"
| "asDiagnosticSeverity Severity_Hint = Some Wire_Hint"
| "asDiagnosticSeverity (Severity_Other n) = None"

fun asDiagnosticTag :: "DiagnosticTag \<Rightarrow> proto_DiagnosticTag option" where
  "asDiagnosticTag Tag_Unnecessary = Some Wire_Unnecessary"
| "asDiagnosticTag Tag_Deprecated = Some Wire_Deprecated"
| "asDiagnosticTag (Tag_Other n) = None"

text \<open>The \<open>for\<close> loop of \<open>asDiagnosticTags\<close>; \<open>result\<close> is the array it pushes to.\<close>

fun asDiagnosticTags_loop ::
  "DiagnosticTag list \<Rightarrow> proto_DiagnosticTag list \<Rightarrow> proto_DiagnosticTag list" where
  "asDiagnosticTags_loop [] result = result"
| "asDiagnosticTags_loop (tag # rest) result =
     (case asDiagnosticTag tag of
        None \<Rightarrow> asDiagnosticTags_loop rest result
      | Some converted \<Rightarrow> asDiagnosticTags_loop rest (result @ [converted]))"

definition asDiagnosticTags :: "DiagnosticTag list option \<Rightarrow> proto_DiagnosticTag list option" where
  "asDiagnosticTags tags =
     (case tags of
        None \<Rightarrow> None
      | Some ts \<Rightarrow>
          (let result = asDiagnosticTags_loop ts []
           in if length result > 0 then Some result else None))"

definition asRelatedInformation ::
  "URIConverter \<Rightarrow> DiagnosticRelatedInformation \<Rightarrow> proto_DiagnosticRelatedInformation" where
  "asRelatedInformation conv item =
     \<lparr>wrel_message = rel_message item,
      wrel_location = asLocation_value conv (rel_location item)\<rparr>"

definition asRelatedInformations ::
  "URIConverter \<Rightarrow> DiagnosticRelatedInformation list
     \<Rightarrow> proto_DiagnosticRelatedInformation list" where
  "asRelatedInformations conv items = map (asRelatedInformation conv) items"

text \<open>
  Modelled from the spec: \<open>proto.Diagnostic.create\<close> belongs to the protocol types
  library, which is not among the sources; called with a range and a message it builds
  a diagnostic that has these two properties only.
\<close>

definition Diagnostic_create :: "proto_Range \<Rightarrow> string \<Rightarrow> proto_Diagnostic" where
  "Diagnostic_create r m =
     \<lparr>wdiag_range = r, wdiag_message = m, wdiag_severity = None, wdiag_code = None,
      wdiag_tags = None, wdiag_relatedInformation = None, wdiag_source = None\<rparr>"

definition is_number_or_string :: "DiagnosticCode option \<Rightarrow> bool" where
  \<comment> \<open>\<open>Is.number(item.code) || Is.string(item.code)\<close>\<close>
  "is_number_or_string c =
     (case c of Some (Code_Number _) \<Rightarrow> True | Some (Code_String _) \<Rightarrow> True | _ \<Rightarrow> False)"

definition asDiagnostic :: "URIConverter \<Rightarrow> Diagnostic \<Rightarrow> proto_Diagnostic" where
  "asDiagnostic conv item =
     (let result = Diagnostic_create (asRange_value (diag_range item)) (diag_message item);
          result = assign_if (diag_severity item \<noteq> None)
                     (\<lambda>r. r\<lparr>wdiag_severity :=
                              Option.bind (diag_severity item) asDiagnosticSeverity\<rparr>) result;
          result = assign_if (is_number_or_string (diag_code item))
                     (\<lambda>r. r\<lparr>wdiag_code := diag_code item\<rparr>) result;
          result = assign_if (diag_tags item \<noteq> None)
                     (\<lambda>r. r\<lparr>wdiag_tags := asDiagnosticTags (diag_tags item)\<rparr>) result;
          result = assign_if (truthy_object (diag_relatedInformation item))
                     (\<lambda>r. r\<lparr>wdiag_relatedInformation :=
                              map_option (asRelatedInformations conv)
                                (diag_relatedInformation item)\<rparr>) result;
          result = assign_if (truthy_string (diag_source item))
                     (\<lambda>r. r\<lparr>wdiag_source := diag_source item\<rparr>) result
      in result)"

definition asDiagnostics :: "URIConverter \<Rightarrow> Diagnostic list \<Rightarrow> proto_Diagnostic list" where
  "asDiagnostics conv items = map (asDiagnostic conv) items"

text \<open>
  The specification's account of the tags: the allow-list, each allowed tag with its
  wire value.
\<close>

definition tag_allow_list :: "(DiagnosticTag \<times> proto_DiagnosticTag) list" where
  "tag_allow_list =
     [(Tag_Unnecessary, Wire_Unnecessary), (Tag_Deprecated, Wire_Deprecated)]"


section \<open>Document change parameters\<close>

record TextDocument =
  doc_uri :: Uri
  doc_languageId :: string
  doc_version :: int
  doc_getText :: string

record TextDocumentContentChangeEvent =
  chg_range :: Range
  chg_rangeLength :: int
  chg_text :: string

record TextDocumentChangeEvent =
  evt_document :: TextDocument
  evt_contentChanges :: "TextDocumentContentChangeEvent list"

text \<open>
  \<open>asChangeTextDocumentParams\<close> receives one object and looks at its properties to tell
  what it is. The argument is therefore an object with the properties the function
  reads, each of which may be missing. A text document and a change event are the two
  objects of this kind that the type of the function admits.
\<close>

record ChangeArgument =
  arg_uri :: "Uri option"
  arg_version :: "int option"
  arg_getText :: "string option"
  arg_document :: "TextDocument option"
  arg_contentChanges :: "TextDocumentContentChangeEvent list option"

definition of_TextDocument :: "TextDocument \<Rightarrow> ChangeArgument" where
  "of_TextDocument d =
     \<lparr>arg_uri = Some (doc_uri d), arg_version = Some (doc_version d),
      arg_getText = Some (doc_getText d), arg_document = None, arg_contentChanges = None\<rparr>"

definition of_TextDocumentChangeEvent :: "TextDocumentChangeEvent \<Rightarrow> ChangeArgument" where
  "of_TextDocumentChangeEvent e =
     \<lparr>arg_uri = None, arg_version = None, arg_getText = None,
      arg_document = Some (evt_document e),
      arg_contentChanges = Some (evt_contentChanges e)\<rparr>"

record proto_VersionedTextDocumentIdentifier =
  wvid_uri :: string
  wvid_version :: int

record proto_TextDocumentContentChangeEvent =
  wchg_range :: "proto_Range option"
  wchg_rangeLength :: "int option"
  wchg_text :: string

record proto_DidChangeTextDocumentParams =
  wdc_textDocument :: proto_VersionedTextDocumentIdentifier
  wdc_contentChanges :: "proto_TextDocumentContentChangeEvent list"

text \<open>
  \<open>Error m\<close> is \<open>throw Error(m)\<close>; \<open>TypeError\<close> is what calling a missing method raises.
\<close>

datatype error = Error string | TypeError

definition isTextDocumentChangeEvent :: "ChangeArgument \<Rightarrow> bool" where
  "isTextDocumentChangeEvent candidate =
     (truthy_object (arg_document candidate) \<and> truthy_object (arg_contentChanges candidate))"

definition isTextDocument :: "ChangeArgument \<Rightarrow> bool" where
  "isTextDocument candidate =
     (truthy_object (arg_uri candidate) \<and> truthy_number (arg_version candidate))"

definition asContentChange ::
  "TextDocumentContentChangeEvent \<Rightarrow> proto_TextDocumentContentChangeEvent" where
  \<comment> \<open>the function that \<open>asChangeTextDocumentParams\<close> maps over \<open>arg.contentChanges\<close>\<close>
  "asContentChange change =
     (let range = chg_range change
      in \<lparr>wchg_range = Some
            \<lparr>wrng_start = \<lparr>wpos_line = pos_line (rng_start range),
                           wpos_character = pos_character (rng_start range)\<rparr>,
             wrng_end = \<lparr>wpos_line = pos_line (rng_end range),
                         wpos_character = pos_character (rng_end range)\<rparr>\<rparr>,
          wchg_rangeLength = Some (chg_rangeLength change),
          wchg_text = chg_text change\<rparr>)"

definition asChangeTextDocumentParams ::
  "URIConverter \<Rightarrow> ChangeArgument \<Rightarrow> error + proto_DidChangeTextDocumentParams" where
  "asChangeTextDocumentParams conv arg =
     (if isTextDocument arg then
        (case (arg_uri arg, arg_version arg, arg_getText arg) of
           (Some u, Some v, Some t) \<Rightarrow>
             Inr \<lparr>wdc_textDocument = \<lparr>wvid_uri = conv u, wvid_version = v\<rparr>,
                  wdc_contentChanges =
                    [\<lparr>wchg_range = None, wchg_rangeLength = None, wchg_text = t\<rparr>]\<rparr>
         | _ \<Rightarrow> Inl TypeError)
      else if isTextDocumentChangeEvent arg then
        (case (arg_document arg, arg_contentChanges arg) of
           (Some document, Some changes) \<Rightarrow>
             Inr \<lparr>wdc_textDocument =
                    \<lparr>wvid_uri = conv (doc_uri document),
                     wvid_version = doc_version document\<rparr>,
                  wdc_contentChanges = map asContentChange changes\<rparr>
         | _ \<Rightarrow> Inl TypeError)
      else Inl (Error ''Unsupported text document change parameter''))"


section \<open>Commands and text edits\<close>

text \<open>
  The \<open>arguments\<close> of a command are an array of arbitrary values. The converter hands
  the array on without looking into it, so the model holds its address in the store.
\<close>

record Command =
  cmd_title :: string
  cmd_command :: string
  cmd_arguments :: "ref option"

record proto_Command =
  wcmd_title :: string
  wcmd_command :: string
  wcmd_arguments :: "ref option"

text \<open>
  Modelled from the spec: \<open>proto.Command.create\<close> belongs to the protocol types library,
  which is not among the sources; called with a title and a command identifier it
  builds a command without arguments.
\<close>

definition Command_create :: "string \<Rightarrow> string \<Rightarrow> proto_Command" where
  "Command_create t c = \<lparr>wcmd_title = t, wcmd_command = c, wcmd_arguments = None\<rparr>"

definition asCommand :: "Command \<Rightarrow> proto_Command" where
  "asCommand item =
     (let result = Command_create (cmd_title item) (cmd_command item);
          result = assign_if (truthy_object (cmd_arguments item))
                     (\<lambda>r. r\<lparr>wcmd_arguments := cmd_arguments item\<rparr>) result
      in result)"

record TextEdit =
  edit_range :: Range
  edit_newText :: string

record proto_TextEdit =
  wedit_range :: proto_Range
  wedit_newText :: string

definition asTextEdit :: "TextEdit \<Rightarrow> proto_TextEdit" where
  "asTextEdit edit =
     \<lparr>wedit_range = asRange_value (edit_range edit), wedit_newText = edit_newText edit\<rparr>"

definition asTextEdits :: "TextEdit list \<Rightarrow> proto_TextEdit list" where
  "asTextEdits edits = map asTextEdit edits"


section \<open>Completion items\<close>

text \<open>
  The insertion payload of an item is a plain string or a \<open>SnippetString\<close> object, whose
  \<open>value\<close> is the text of the snippet. Documentation is a string or a \<open>MarkdownString\<close>
  object.
\<close>

datatype InsertText = Plain_String string | SnippetString string

datatype Documentation = Documentation_String string | MarkdownString string

text \<open>
  On the wire documentation is either the host's value handed on as it is (the source
  casts it to a string) or a markup object \<open>{kind, value}\<close>.
\<close>

datatype proto_Documentation =
  Wire_Documentation Documentation
  | MarkupContent string "Documentation option"

datatype InsertTextFormat = PlainText | Snippet

text \<open>
  A completion item is an object. The last five properties are the ones the class
  \<open>ProtocolCompletionItem\<close> declares; being properties of the object, any item can carry
  them. Whether the item is an instance of that class is a fact of its own, which
  \<open>instanceof\<close> tests: \<open>asCompletionItem\<close> reads \<open>data\<close>, \<open>documentationFormat\<close>,
  \<open>originalItemKind\<close> and \<open>deprecated\<close> only from an instance, while
  \<open>fillPrimaryInsertText\<close> is given the item under a cast and reads \<open>fromEdit\<close> from
  whatever item it gets.
\<close>

record CompletionItem =
  item_label :: string
  item_detail :: "string option"
  item_documentation :: "Documentation option"
  item_filterText :: "string option"
  item_insertText :: "InsertText option"
  item_range :: "Range option"
  item_textEdit :: "TextEdit option"
  item_kind :: "int option"
  item_sortText :: "string option"
  item_additionalTextEdits :: "TextEdit list option"
  item_commitCharacters :: "ref option"
  item_command :: "Command option"
  item_preselect :: "bool option"
  item_instanceof_ProtocolCompletionItem :: bool
  item_data :: "js_value option"
  item_fromEdit :: "bool option"
  item_documentationFormat :: "string option"
  item_originalItemKind :: "int option"
  item_deprecated :: "bool option"

record proto_CompletionItem =
  w_label :: string
  w_detail :: "string option"
  w_documentation :: "proto_Documentation option"
  w_filterText :: "string option"
  w_insertTextFormat :: "InsertTextFormat option"
  w_textEdit :: "proto_TextEdit option"
  w_insertText :: "string option"
  w_kind :: "int option"
  w_sortText :: "string option"
  w_additionalTextEdits :: "proto_TextEdit list option"
  w_commitCharacters :: "ref option"
  w_command :: "proto_Command option"
  w_preselect :: "bool option"
  w_data :: "js_value option"
  w_deprecated :: "bool option"

definition truthy_documentation :: "Documentation option \<Rightarrow> bool" where
  "truthy_documentation d =
     (case d of None \<Rightarrow> False
      | Some (Documentation_String s) \<Rightarrow> s \<noteq> []
      | Some (MarkdownString v) \<Rightarrow> True)"

text \<open>
  Modelled from the spec: the constants \<open>proto.MarkupKind.PlainText\<close> and
  \<open>proto.MarkupKind.Markdown\<close> belong to the protocol types library, which is not among
  the sources; the markup kind is one of the two string literals \<open>plaintext\<close> and
  \<open>markdown\<close>.
\<close>

definition MarkupKind_PlainText :: string where
  "MarkupKind_PlainText = ''plaintext''"

definition MarkupKind_Markdown :: string where
  "MarkupKind_Markdown = ''markdown''"

definition asDocumentation :: "string option \<Rightarrow> Documentation \<Rightarrow> proto_Documentation" where
  \<comment> \<open>the format is a property of the item and may be undefined, which the template
      string of the default case prints as \<open>undefined\<close>\<close>
  "asDocumentation format documentation =
     (if format = Some ''$string'' then Wire_Documentation documentation
      else if format = Some MarkupKind_PlainText
        then MarkupContent MarkupKind_PlainText (Some documentation)
      else if format = Some MarkupKind_Markdown then
        MarkupContent MarkupKind_Markdown
          (case documentation of
             MarkdownString v \<Rightarrow> Some (Documentation_String v)
           | Documentation_String s \<Rightarrow> None)
      else Wire_Documentation (Documentation_String
             (''Unsupported Markup content received. Kind is: '' @
              (case format of None \<Rightarrow> ''undefined'' | Some f \<Rightarrow> f))))"

definition asCompletionItemKind :: "int \<Rightarrow> int option \<Rightarrow> int" where
  "asCompletionItemKind v original =
     (case original of Some k \<Rightarrow> k | None \<Rightarrow> number_plus v 1)"

text \<open>
  \<open>fillPrimaryInsertText\<close> assigns its three local variables in an \<open>if\<close> chain, lets
  the item's own range replace the range found there, and writes the outcome to
  \<open>target\<close>. The condition \<open>source.fromEdit && text && range\<close> tests a boolean, a string
  and an object for truthiness, under which \<open>the\<close> reads the latter two.
\<close>

definition fillPrimaryInsertText ::
  "proto_CompletionItem \<Rightarrow> CompletionItem \<Rightarrow> proto_CompletionItem" where
  "fillPrimaryInsertText target source =
     (let (format, text, range) =
            (case item_textEdit source of
               Some e \<Rightarrow>
                 (PlainText, Some (edit_newText e), Some (asRange_value (edit_range e)))
             | None \<Rightarrow>
                 (case item_insertText source of
                    Some (SnippetString v) \<Rightarrow> (Snippet, Some v, None)
                  | Some (Plain_String s) \<Rightarrow> (PlainText, Some s, None)
                  | None \<Rightarrow> (PlainText, None, None)));
          range = (case item_range source of
                     Some r \<Rightarrow> Some (asRange_value r)
                   | None \<Rightarrow> range);
          target = target\<lparr>w_insertTextFormat := Some format\<rparr>
      in if truthy_boolean (item_fromEdit source) \<and> truthy_string text \<and> truthy_object range
         then target\<lparr>w_textEdit := Some \<lparr>wedit_range = the range, wedit_newText = the text\<rparr>\<rparr>
         else target\<lparr>w_insertText := text\<rparr>)"

definition asCompletionItem ::
  "URIConverter \<Rightarrow> heap \<Rightarrow> CompletionItem \<Rightarrow> proto_CompletionItem \<times> heap" where
  "asCompletionItem conv h item =
     (let result = \<lparr>w_label = item_label item, w_detail = None, w_documentation = None,
                    w_filterText = None, w_insertTextFormat = None, w_textEdit = None,
                    w_insertText = None, w_kind = None, w_sortText = None,
                    w_additionalTextEdits = None, w_commitCharacters = None,
                    w_command = None, w_preselect = None, w_data = None,
                    w_deprecated = None\<rparr>;
          protocolItem = (if item_instanceof_ProtocolCompletionItem item
                          then Some item else None);
          result = assign_if (truthy_string (item_detail item))
                     (\<lambda>r. r\<lparr>w_detail := item_detail item\<rparr>) result;
          result = assign_if (truthy_documentation (item_documentation item))
                     (\<lambda>r. r\<lparr>w_documentation :=
                        map_option
                          (\<lambda>d. if protocolItem = None \<or>
                                   Option.bind protocolItem item_documentationFormat
                                     = Some ''$string''
                                then Wire_Documentation d
                                else asDocumentation
                                       (Option.bind protocolItem item_documentationFormat) d)
                          (item_documentation item)\<rparr>) result;
          result = assign_if (truthy_string (item_filterText item))
                     (\<lambda>r. r\<lparr>w_filterText := item_filterText item\<rparr>) result;
          result = fillPrimaryInsertText result item;
          result = assign_if (item_kind item \<noteq> None)
                     (\<lambda>r. r\<lparr>w_kind :=
                        map_option
                          (\<lambda>k. asCompletionItemKind k
                                 (Option.bind protocolItem item_originalItemKind))
                          (item_kind item)\<rparr>) result;
          result = assign_if (truthy_string (item_sortText item))
                     (\<lambda>r. r\<lparr>w_sortText := item_sortText item\<rparr>) result;
          result = assign_if (truthy_object (item_additionalTextEdits item))
                     (\<lambda>r. r\<lparr>w_additionalTextEdits :=
                        map_option asTextEdits (item_additionalTextEdits item)\<rparr>) result;
          (copy, h') = (case item_commitCharacters item of
                          None \<Rightarrow> (None, h)
                        | Some a \<Rightarrow> (case slice h a of (a', h') \<Rightarrow> (Some a', h')));
          result = assign_if (truthy_object (item_commitCharacters item))
                     (\<lambda>r. r\<lparr>w_commitCharacters := copy\<rparr>) result;
          result = assign_if (truthy_object (item_command item))
                     (\<lambda>r. r\<lparr>w_command := map_option asCommand (item_command item)\<rparr>) result;
          result = assign_if (item_preselect item \<noteq> None)
                     (\<lambda>r. r\<lparr>w_preselect := item_preselect item\<rparr>) result;
          result = assign_if (Option.bind protocolItem item_data \<noteq> None)
                     (\<lambda>r. r\<lparr>w_data := Option.bind protocolItem item_data\<rparr>) result;
          result = assign_if (Option.bind protocolItem item_deprecated \<noteq> None)
                     (\<lambda>r. r\<lparr>w_deprecated := Option.bind protocolItem item_deprecated\<rparr>) result
      in (result, h'))"

text \<open>
  Modelled from the spec: the constructors of \<open>code.CompletionItem\<close> and of its subclass
  \<open>ProtocolCompletionItem\<close> are not among the sources; called with a label they build an
  item whose other properties are all undefined.
\<close>

definition CompletionItem_new :: "string \<Rightarrow> CompletionItem" where
  "CompletionItem_new l =
     \<lparr>item_label = l, item_detail = None, item_documentation = None,
      item_filterText = None, item_insertText = None, item_range = None,
      item_textEdit = None, item_kind = None, item_sortText = None,
      item_additionalTextEdits = None, item_commitCharacters = None,
      item_command = None, item_preselect = None,
      item_instanceof_ProtocolCompletionItem = False, item_data = None,
      item_fromEdit = None, item_documentationFormat = None,
      item_originalItemKind = None, item_deprecated = None\<rparr>"

definition ProtocolCompletionItem_new :: "string \<Rightarrow> CompletionItem" where
  "ProtocolCompletionItem_new l =
     (CompletionItem_new l)\<lparr>item_instanceof_ProtocolCompletionItem := True\<rparr>"

text \<open>
  The text a wire item inserts: the \<open>newText\<close> of its text edit when it has one, and its
  \<open>insertText\<close> otherwise.
\<close>

definition emitted_text :: "proto_CompletionItem \<Rightarrow> string option" where
  "emitted_text w =
     (case w_textEdit w of Some e \<Rightarrow> Some (wedit_newText e) | None \<Rightarrow> w_insertText w)"

text \<open>
  The specification's account of the insertion payload, to compare the converter with:
  the text and the format by precedence (text edit, snippet, plain string), and the
  range of the text edit unless the item has a range of its own.
\<close>

definition chosen_text :: "CompletionItem \<Rightarrow> string option" where
  "chosen_text item =
     (case item_textEdit item of
        Some e \<Rightarrow> Some (edit_newText e)
      | None \<Rightarrow>
          (case item_insertText item of
             Some (SnippetString v) \<Rightarrow> Some v
           | Some (Plain_String s) \<Rightarrow> Some s
           | None \<Rightarrow> None))"

definition chosen_format :: "CompletionItem \<Rightarrow> InsertTextFormat" where
  "chosen_format item =
     (case item_textEdit item of
        Some e \<Rightarrow> PlainText
      | None \<Rightarrow>
          (case item_insertText item of
             Some (SnippetString v) \<Rightarrow> Snippet
           | Some (Plain_String s) \<Rightarrow> PlainText
           | None \<Rightarrow> PlainText))"

definition chosen_range :: "CompletionItem \<Rightarrow> proto_Range option" where
  "chosen_range item =
     (case item_range item of
        Some r \<Rightarrow> Some (asRange_value r)
      | None \<Rightarrow> map_option (\<lambda>e. asRange_value (edit_range e)) (item_textEdit item))"


section \<open>Properties of positions, ranges and locations\<close>

text \<open>
  C7. Given \<open>undefined\<close>, each of \<open>asPosition\<close>, \<open>asRange\<close> and \<open>asLocation\<close> returns
  \<open>undefined\<close>, and given \<open>null\<close> each returns \<open>null\<close>; a value is constructed exactly
  when the input is a value, so an absent input never yields a default.
\<close>

theorem absent_input_is_returned:
  "asPosition Undefined = Undefined \<and> asPosition Null = Null \<and>
   asRange Undefined = Undefined \<and> asRange Null = Null \<and>
   asLocation conv Undefined = Undefined \<and> asLocation conv Null = Null \<and>
   is_Value (asPosition p) = is_Value p \<and>
   is_Value (asRange r) = is_Value r \<and>
   is_Value (asLocation conv l) = is_Value l"
proof -
  have "is_Value (asPosition p) = is_Value p" by (cases p) simp_all
  moreover have "is_Value (asRange r) = is_Value r" by (cases r) simp_all
  moreover have "is_Value (asLocation conv l) = is_Value l" by (cases l) simp_all
  ultimately show ?thesis by simp
qed


section \<open>Properties of diagnostics\<close>

lemma asDiagnosticTag_allow_list: "asDiagnosticTag t = map_of tag_allow_list t"
  by (cases t) (simp_all add: tag_allow_list_def)

lemma asDiagnosticTags_loop_append:
  "asDiagnosticTags_loop ts acc = acc @ List.map_filter (map_of tag_allow_list) ts"
proof (induction ts arbitrary: acc)
  case Nil
  show ?case by (simp add: map_filter_simps)
next
  case (Cons t ts)
  show ?case
    by (cases "asDiagnosticTag t")
       (simp_all add: Cons.IH map_filter_simps asDiagnosticTag_allow_list [symmetric])
qed

lemma assign_if_True: "assign_if True f r = f r"
  by (simp add: assign_if_def)

lemma assign_if_False: "assign_if False f r = r"
  by (simp add: assign_if_def)

lemma wdiag_tags_assign_if:
  "wdiag_tags (assign_if c f r) = (if c then wdiag_tags (f r) else wdiag_tags r)"
  by (simp add: assign_if_def)

text \<open>
  C5. For a diagnostic whose \<open>tags\<close> list is present, the wire diagnostic carries the
  wire values of exactly the tags of the allow-list (Unnecessary, Deprecated), in their
  order; every other tag is dropped, and no input makes the conversion fail; and when no
  tag is left the \<open>tags\<close> field is absent, never an empty list.
\<close>

theorem diagnostic_tags_allow_list:
  assumes "diag_tags item = Some ts"
  shows "wdiag_tags (asDiagnostic conv item) =
           (if List.map_filter (map_of tag_allow_list) ts = [] then None
            else Some (List.map_filter (map_of tag_allow_list) ts)) \<and>
         wdiag_tags (asDiagnostic conv item) \<noteq> Some []"
  using assms
  by (simp add: asDiagnostic_def Let_def wdiag_tags_assign_if asDiagnosticTags_def
        asDiagnosticTags_loop_append)

text \<open>
  C5 at a diagnostic with an unknown tag, Deprecated and Unnecessary, and at one whose
  only tag is unknown.
\<close>

theorem diagnostic_tags_allow_list_witness:
  "wdiag_tags (asDiagnostic nullConverter
      \<lparr>diag_range = Range_new 0 0 0 4,
       diag_message = ''unused'', diag_severity = None, diag_code = None,
       diag_tags = Some [Tag_Other 7, Tag_Deprecated, Tag_Unnecessary],
       diag_relatedInformation = None, diag_source = None\<rparr>)
     = Some [Wire_Deprecated, Wire_Unnecessary] \<and>
   wdiag_tags (asDiagnostic nullConverter
      \<lparr>diag_range = Range_new 0 0 0 4,
       diag_message = ''unused'', diag_severity = None, diag_code = None,
       diag_tags = Some [Tag_Other 7],
       diag_relatedInformation = None, diag_source = None\<rparr>)
     = None"
  using diagnostic_tags_allow_list
    [of "\<lparr>diag_range = Range_new 0 0 0 4,
          diag_message = ''unused'', diag_severity = None, diag_code = None,
          diag_tags = Some [Tag_Other 7, Tag_Deprecated, Tag_Unnecessary],
          diag_relatedInformation = None, diag_source = None\<rparr>"
        "[Tag_Other 7, Tag_Deprecated, Tag_Unnecessary]" nullConverter]
    diagnostic_tags_allow_list
    [of "\<lparr>diag_range = Range_new 0 0 0 4,
          diag_message = ''unused'', diag_severity = None, diag_code = None,
          diag_tags = Some [Tag_Other 7],
          diag_relatedInformation = None, diag_source = None\<rparr>"
        "[Tag_Other 7]" nullConverter]
  by (simp add: tag_allow_list_def map_filter_simps)


section \<open>Properties of document change parameters\<close>

lemma asContentChange_eq:
  "asContentChange c =
     \<lparr>wchg_range = Some (asRange_value (chg_range c)),
      wchg_rangeLength = Some (chg_rangeLength c), wchg_text = chg_text c\<rparr>"
  by (simp add: asContentChange_def Let_def asRange_value_def asPosition_value_def)

lemma isTextDocument_present:
  "isTextDocument a =
     (arg_uri a \<noteq> None \<and> arg_version a \<noteq> None \<and> arg_version a \<noteq> Some 0)"
  by (cases "arg_uri a"; cases "arg_version a")
     (simp_all add: isTextDocument_def truthy_object_def truthy_number_def)

lemma isTextDocumentChangeEvent_present:
  "isTextDocumentChangeEvent a = (arg_document a \<noteq> None \<and> arg_contentChanges a \<noteq> None)"
  by (cases "arg_document a"; cases "arg_contentChanges a")
     (simp_all add: isTextDocumentChangeEvent_def truthy_object_def)

lemma isTextDocument_of_TextDocument:
  "isTextDocument (of_TextDocument d) = (doc_version d \<noteq> 0)"
  by (simp add: isTextDocument_def of_TextDocument_def truthy_object_def truthy_number_def)

lemma isTextDocumentChangeEvent_of_TextDocument:
  "\<not> isTextDocumentChangeEvent (of_TextDocument d)"
  by (simp add: isTextDocumentChangeEvent_def of_TextDocument_def truthy_object_def)

lemma isTextDocument_of_TextDocumentChangeEvent:
  "\<not> isTextDocument (of_TextDocumentChangeEvent e)"
  by (simp add: isTextDocument_def of_TextDocumentChangeEvent_def truthy_object_def)

lemma isTextDocumentChangeEvent_of_TextDocumentChangeEvent:
  "isTextDocumentChangeEvent (of_TextDocumentChangeEvent e)"
  by (simp add: isTextDocumentChangeEvent_def of_TextDocumentChangeEvent_def truthy_object_def)

lemma asChangeTextDocumentParams_of_TextDocument:
  "asChangeTextDocumentParams conv (of_TextDocument d) =
     (if doc_version d = 0
      then Inl (Error ''Unsupported text document change parameter'')
      else Inr \<lparr>wdc_textDocument =
                  \<lparr>wvid_uri = conv (doc_uri d), wvid_version = doc_version d\<rparr>,
                wdc_contentChanges =
                  [\<lparr>wchg_range = None, wchg_rangeLength = None,
                    wchg_text = doc_getText d\<rparr>]\<rparr>)"
  by (simp add: asChangeTextDocumentParams_def isTextDocument_of_TextDocument
        isTextDocumentChangeEvent_of_TextDocument)
     (simp add: of_TextDocument_def)

lemma asChangeTextDocumentParams_of_TextDocumentChangeEvent:
  "asChangeTextDocumentParams conv (of_TextDocumentChangeEvent e) =
     Inr \<lparr>wdc_textDocument =
            \<lparr>wvid_uri = conv (doc_uri (evt_document e)),
             wvid_version = doc_version (evt_document e)\<rparr>,
          wdc_contentChanges = map asContentChange (evt_contentChanges e)\<rparr>"
  by (simp add: asChangeTextDocumentParams_def isTextDocument_of_TextDocumentChangeEvent
        isTextDocumentChangeEvent_of_TextDocumentChangeEvent)
     (simp add: of_TextDocumentChangeEvent_def)

text \<open>
  What the function emits where it does not throw. A whole document gives exactly one
  content change, which holds the full text and neither \<open>range\<close> nor \<open>rangeLength\<close>; a
  change event gives the list of its converted edits, as many elements as edits, in
  their order, each with the range, the range length and the text of its own edit.
  The first part is proved for the documents whose version is not 0, the only ones
  for which the call returns.
\<close>

lemma asChangeTextDocumentParams_emits:
  "(doc_version d \<noteq> 0 \<longrightarrow>
      asChangeTextDocumentParams conv (of_TextDocument d) =
        Inr \<lparr>wdc_textDocument =
               \<lparr>wvid_uri = conv (doc_uri d), wvid_version = doc_version d\<rparr>,
             wdc_contentChanges =
               [\<lparr>wchg_range = None, wchg_rangeLength = None,
                 wchg_text = doc_getText d\<rparr>]\<rparr>) \<and>
   asChangeTextDocumentParams conv (of_TextDocumentChangeEvent e) =
     Inr \<lparr>wdc_textDocument =
            \<lparr>wvid_uri = conv (doc_uri (evt_document e)),
             wvid_version = doc_version (evt_document e)\<rparr>,
          wdc_contentChanges =
            map (\<lambda>c. \<lparr>wchg_range = Some (asRange_value (chg_range c)),
                      wchg_rangeLength = Some (chg_rangeLength c),
                      wchg_text = chg_text c\<rparr>)
              (evt_contentChanges e)\<rparr>"
proof -
  have "map asContentChange (evt_contentChanges e) =
      map (\<lambda>c. \<lparr>wchg_range = Some (asRange_value (chg_range c)),
                wchg_rangeLength = Some (chg_rangeLength c),
                wchg_text = chg_text c\<rparr>)
        (evt_contentChanges e)"
    by (simp add: asContentChange_eq)
  then show ?thesis
    by (simp add: asChangeTextDocumentParams_of_TextDocument
          asChangeTextDocumentParams_of_TextDocumentChangeEvent)
qed

text \<open>
  C3. The claim has every whole document converted to the single content change that
  holds its text. The code at the whole document with the text \<open>abc\<close> and version 0:
  \<open>isTextDocument\<close> tests the version for truthiness and so does not take the document
  for one, and the call throws instead of emitting the change.
\<close>

theorem version_zero_snapshot_emits_nothing:
  "asChangeTextDocumentParams nullConverter
      (of_TextDocument \<lparr>doc_uri = Uri ''file:///b.txt'', doc_languageId = ''plaintext'',
                        doc_version = 0, doc_getText = ''abc''\<rparr>) =
     Inl (Error ''Unsupported text document change parameter'') \<and>
   map_sum id wdc_contentChanges (asChangeTextDocumentParams nullConverter
      (of_TextDocument \<lparr>doc_uri = Uri ''file:///b.txt'', doc_languageId = ''plaintext'',
                        doc_version = 0, doc_getText = ''abc''\<rparr>)) \<noteq>
     Inr [\<lparr>wchg_range = None, wchg_rangeLength = None, wchg_text = ''abc''\<rparr>]"
  by (simp add: asChangeTextDocumentParams_of_TextDocument)

text \<open>
  When the function throws its own error: exactly when the argument passes neither of
  the two tests. Of the arguments its type admits, a change event never fails and a
  text document fails exactly when its version is 0.
\<close>

lemma asChangeTextDocumentParams_unsupported:
  "(asChangeTextDocumentParams conv a =
      Inl (Error ''Unsupported text document change parameter'')) =
     (\<not> isTextDocument a \<and> \<not> isTextDocumentChangeEvent a) \<and>
   isl (asChangeTextDocumentParams conv (of_TextDocument d)) = (doc_version d = 0) \<and>
   \<not> isl (asChangeTextDocumentParams conv (of_TextDocumentChangeEvent e))"
proof -
  have "(asChangeTextDocumentParams conv a =
      Inl (Error ''Unsupported text document change parameter'')) =
     (\<not> isTextDocument a \<and> \<not> isTextDocumentChangeEvent a)"
    by (simp add: asChangeTextDocumentParams_def split: option.split prod.split)
  then show ?thesis
    by (simp add: asChangeTextDocumentParams_of_TextDocument
          asChangeTextDocumentParams_of_TextDocumentChangeEvent)
qed

text \<open>
  C6. The claim has the call throw only for an argument of neither shape. The code at
  a text document that has a uri and a version, the version being 0: it throws. The
  cause is the one of C3, the truthiness test of the version in \<open>isTextDocument\<close>.
\<close>

theorem document_with_version_zero_is_unsupported:
  "arg_uri (of_TextDocument \<lparr>doc_uri = Uri ''file:///c.txt'', doc_languageId = ''plaintext'',
                             doc_version = 0, doc_getText = ''text''\<rparr>) =
     Some (Uri ''file:///c.txt'') \<and>
   arg_version (of_TextDocument \<lparr>doc_uri = Uri ''file:///c.txt'',
                                 doc_languageId = ''plaintext'',
                                 doc_version = 0, doc_getText = ''text''\<rparr>) = Some 0 \<and>
   asChangeTextDocumentParams nullConverter
      (of_TextDocument \<lparr>doc_uri = Uri ''file:///c.txt'', doc_languageId = ''plaintext'',
                        doc_version = 0, doc_getText = ''text''\<rparr>) =
     Inl (Error ''Unsupported text document change parameter'')"
  by (simp add: asChangeTextDocumentParams_of_TextDocument) (simp add: of_TextDocument_def)

text \<open>
  C9, as amended. A text document whose version is 0 is not taken as a whole document
  and, having no \<open>contentChanges\<close>, makes the call throw; every text document with another
  version is converted to a full-text change. The uri plays no part: it is an object,
  which passes the truthiness test whatever string it renders to.
\<close>

theorem version_zero_document_is_rejected:
  "asChangeTextDocumentParams conv (of_TextDocument d) =
     (if doc_version d = 0
      then Inl (Error ''Unsupported text document change parameter'')
      else Inr \<lparr>wdc_textDocument =
                  \<lparr>wvid_uri = conv (doc_uri d), wvid_version = doc_version d\<rparr>,
                wdc_contentChanges =
                  [\<lparr>wchg_range = None, wchg_rangeLength = None,
                    wchg_text = doc_getText d\<rparr>]\<rparr>)"
  by (rule asChangeTextDocumentParams_of_TextDocument)

text \<open>
  C9 as stated fails for the uri: a document whose uri renders to the empty string, with
  version 1, is converted and nothing is thrown.
\<close>

theorem empty_uri_document_is_converted:
  "nullConverter (Uri '''') = '''' \<and>
   asChangeTextDocumentParams nullConverter
     (of_TextDocument \<lparr>doc_uri = Uri '''', doc_languageId = ''plaintext'',
                       doc_version = 1, doc_getText = ''abc''\<rparr>) =
     Inr \<lparr>wdc_textDocument = \<lparr>wvid_uri = '''', wvid_version = 1\<rparr>,
          wdc_contentChanges =
            [\<lparr>wchg_range = None, wchg_rangeLength = None, wchg_text = ''abc''\<rparr>]\<rparr>"
  by (simp add: asChangeTextDocumentParams_of_TextDocument)

section \<open>Properties of numbers\<close>

lemma double_ulp_small: "m < 2 ^ 53 \<Longrightarrow> double_ulp m = 1"
  by (simp add: double_ulp.simps [of m])

lemma double_round_small: "m < 2 ^ 53 \<Longrightarrow> double_round m = m"
  by (simp add: double_round_def double_ulp_small)

lemma double_ulp_2_53: "double_ulp (2 ^ 53) = 2"
proof -
  have "double_ulp (2 ^ 53) = 2 * double_ulp ((2 ^ 53) div 2)"
    by (subst double_ulp.simps) simp
  also have "(2 ^ 53) div 2 = (2 ^ 52 :: nat)" by simp
  also have "double_ulp (2 ^ 52) = 1" by (rule double_ulp_small) simp
  finally show ?thesis by simp
qed

lemma double_round_2_53: "double_round (2 ^ 53) = 2 ^ 53"
  using double_ulp_2_53 by (simp add: double_round_def Let_def)

lemma double_round_exact: "m \<le> 2 ^ 53 \<Longrightarrow> double_round m = m"
  using double_round_small [of m] double_round_2_53
  by (cases "m = 2 ^ 53") auto

lemma number_of_int_exact:
  assumes "- (2 ^ 53) \<le> n" and "n \<le> 2 ^ 53"
  shows "number_of_int n = n"
proof (cases "n < 0")
  case True
  with assms have "nat (- n) \<le> 2 ^ 53" by simp
  then have "double_round (nat (- n)) = nat (- n)" by (rule double_round_exact)
  with True show ?thesis by (simp add: number_of_int_def)
next
  case False
  with assms have "nat n \<le> 2 ^ 53" by simp
  then have "double_round (nat n) = nat n" by (rule double_round_exact)
  with False show ?thesis by (simp add: number_of_int_def)
qed

text \<open>Adding 1 is exact on every integer below \<open>2 ^ 53\<close> in magnitude.\<close>

lemma number_plus_one_exact:
  assumes "- (2 ^ 53) < k" and "k < 2 ^ 53"
  shows "number_plus k 1 = k + 1"
  using assms by (simp add: number_plus_def number_of_int_exact)

text \<open>
  Beyond that it is not: \<open>2 ^ 53 + 1\<close> is no double, and the sum is rounded to
  \<open>2 ^ 53\<close>.
\<close>

lemma number_plus_one_rounds: "number_plus 9007199254740992 1 = 9007199254740992"
proof -
  have u: "double_ulp 9007199254740993 = 2"
    by (simp add: double_ulp.simps [of 9007199254740993]
          double_ulp.simps [of 4503599627370496])
  show ?thesis
    by (simp add: number_plus_def number_of_int_def double_round_def u Let_def)
qed


section \<open>Properties of completion items\<close>

lemma frame_assign_if: "(\<And>x. g (f x) = g x) \<Longrightarrow> g (assign_if c f r) = g r"
  by (simp add: assign_if_def)

lemma fillPrimaryInsertText_chosen:
  "fillPrimaryInsertText target source =
     (if truthy_boolean (item_fromEdit source) \<and> truthy_string (chosen_text source) \<and>
         truthy_object (chosen_range source)
      then target\<lparr>w_insertTextFormat := Some (chosen_format source),
                  w_textEdit := Some \<lparr>wedit_range = the (chosen_range source),
                                      wedit_newText = the (chosen_text source)\<rparr>\<rparr>
      else target\<lparr>w_insertTextFormat := Some (chosen_format source),
                  w_insertText := chosen_text source\<rparr>)"
proof (cases "item_textEdit source")
  case None
  show ?thesis
  proof (cases "item_range source")
    case rNone: None
    with None show ?thesis
      by (simp add: fillPrimaryInsertText_def chosen_text_def chosen_format_def
            chosen_range_def truthy_object_def truthy_string_def Let_def
            split: option.split InsertText.split)
  next
    case (Some r)
    with None show ?thesis
      by (simp add: fillPrimaryInsertText_def chosen_text_def chosen_format_def
            chosen_range_def truthy_object_def truthy_string_def Let_def
            split: option.split InsertText.split)
  qed
next
  case (Some e)
  then show ?thesis
    by (simp add: fillPrimaryInsertText_def chosen_text_def chosen_format_def
          chosen_range_def truthy_object_def truthy_string_def Let_def split: option.split)
qed

lemmas completion_frame =
  frame_assign_if[of w_insertText] frame_assign_if[of w_textEdit]
  frame_assign_if[of w_insertTextFormat] frame_assign_if[of w_label]

lemma asCompletionItem_textEdit:
  "w_textEdit (fst (asCompletionItem conv h item)) =
     (if truthy_boolean (item_fromEdit item) \<and> truthy_string (chosen_text item) \<and>
         truthy_object (chosen_range item)
      then Some \<lparr>wedit_range = the (chosen_range item), wedit_newText = the (chosen_text item)\<rparr>
      else None)"
  by (simp add: asCompletionItem_def Let_def split_def completion_frame
        fillPrimaryInsertText_chosen)

lemma asCompletionItem_insertText:
  "w_insertText (fst (asCompletionItem conv h item)) =
     (if truthy_boolean (item_fromEdit item) \<and> truthy_string (chosen_text item) \<and>
         truthy_object (chosen_range item)
      then None else chosen_text item)"
  by (simp add: asCompletionItem_def Let_def split_def completion_frame
        fillPrimaryInsertText_chosen)

lemma asCompletionItem_insertTextFormat:
  "w_insertTextFormat (fst (asCompletionItem conv h item)) = Some (chosen_format item)"
  by (simp add: asCompletionItem_def Let_def split_def completion_frame
        fillPrimaryInsertText_chosen)

lemma asCompletionItem_label:
  "w_label (fst (asCompletionItem conv h item)) = item_label item"
  by (simp add: asCompletionItem_def Let_def split_def completion_frame
        fillPrimaryInsertText_chosen)

lemma w_kind_fillPrimaryInsertText:
  "w_kind (fillPrimaryInsertText target source) = w_kind target"
  by (simp add: fillPrimaryInsertText_chosen)

lemma asCompletionItem_kind:
  "w_kind (fst (asCompletionItem conv h item)) =
     map_option
       (\<lambda>k. asCompletionItemKind k
              (if item_instanceof_ProtocolCompletionItem item
               then item_originalItemKind item else None))
       (item_kind item)"
proof (cases "item_kind item")
  case None
  then show ?thesis
    by (simp add: asCompletionItem_def Let_def split_def frame_assign_if[of w_kind]
        assign_if_False w_kind_fillPrimaryInsertText)
next
  case (Some k)
  then show ?thesis
    by (simp add: asCompletionItem_def Let_def split_def frame_assign_if[of w_kind]
        assign_if_True w_kind_fillPrimaryInsertText)
qed

lemma asCompletionItem_commitCharacters:
  "w_commitCharacters (fst (asCompletionItem conv h item)) =
     map_option (\<lambda>a. length h) (item_commitCharacters item)"
proof (cases "item_commitCharacters item")
  case None
  then show ?thesis
    by (simp add: asCompletionItem_def Let_def split_def frame_assign_if[of w_commitCharacters]
        assign_if_False truthy_object_def fillPrimaryInsertText_chosen)
next
  case (Some a)
  then show ?thesis
    by (simp add: asCompletionItem_def Let_def split_def frame_assign_if[of w_commitCharacters]
        assign_if_True truthy_object_def fillPrimaryInsertText_chosen slice_def)
qed

lemma asCompletionItem_heap:
  "snd (asCompletionItem conv h item) =
     (case item_commitCharacters item of None \<Rightarrow> h | Some a \<Rightarrow> h @ [h ! a])"
  by (simp add: asCompletionItem_def Let_def split_def slice_def split: option.splits)

lemma asCompletionItem_command:
  "w_command (fst (asCompletionItem conv h item)) = map_option asCommand (item_command item)"
proof (cases "item_command item")
  case None
  then show ?thesis
    by (simp add: asCompletionItem_def Let_def split_def frame_assign_if[of w_command]
        assign_if_False truthy_object_def fillPrimaryInsertText_chosen)
next
  case (Some a)
  then show ?thesis
    by (simp add: asCompletionItem_def Let_def split_def frame_assign_if[of w_command]
        assign_if_True truthy_object_def fillPrimaryInsertText_chosen)
qed

lemma asCommand_arguments: "wcmd_arguments (asCommand c) = cmd_arguments c"
  by (cases "cmd_arguments c")
     (simp_all add: asCommand_def Let_def Command_create_def assign_if_def truthy_object_def)

text \<open>
  C1, as amended. The text a converted item inserts is chosen by precedence: the
  \<open>newText\<close> of the text edit if the item has one; else the text of the snippet if the
  insertion payload is a snippet; else the plain insertion string; and when that string
  is absent too, the wire item has no insertion text at all. The label is copied to the
  wire item as its label and is never used as insertion text.
\<close>

theorem insertion_text_precedence:
  "emitted_text (fst (asCompletionItem conv h item)) =
     (case item_textEdit item of
        Some e \<Rightarrow> Some (edit_newText e)
      | None \<Rightarrow>
          (case item_insertText item of
             Some (SnippetString v) \<Rightarrow> Some v
           | Some (Plain_String s) \<Rightarrow> Some s
           | None \<Rightarrow> None)) \<and>
   w_label (fst (asCompletionItem conv h item)) = item_label item"
proof -
  have "emitted_text (fst (asCompletionItem conv h item)) = chosen_text item"
    by (cases "chosen_text item")
       (simp_all add: emitted_text_def asCompletionItem_textEdit asCompletionItem_insertText
          truthy_string_def)
  then show ?thesis
    by (simp add: chosen_text_def asCompletionItem_label)
qed

text \<open>
  C1 as stated fails: an item that has only the label \<open>fooItem\<close> is converted to a wire
  item with neither \<open>insertText\<close> nor \<open>textEdit\<close>.
\<close>

theorem label_is_not_inserted:
  "w_insertText (fst (asCompletionItem nullConverter [] (CompletionItem_new ''fooItem''))) = None \<and>
   w_textEdit (fst (asCompletionItem nullConverter [] (CompletionItem_new ''fooItem''))) = None \<and>
   w_label (fst (asCompletionItem nullConverter [] (CompletionItem_new ''fooItem''))) = ''fooItem''"
  by (simp add: asCompletionItem_textEdit asCompletionItem_insertText asCompletionItem_label
        chosen_text_def CompletionItem_new_def truthy_string_def)

text \<open>
  The range of the emission is the item's own range when it has one and the range of
  its text edit otherwise. For an item whose chosen text is not the empty string, the
  wire item carries the text edit made of the range and the text, and no \<open>insertText\<close>,
  if and only if the item is flagged \<open>fromEdit\<close> and both the text and the range are
  present; otherwise it carries the text as \<open>insertText\<close> and no text edit.
\<close>

lemma text_edit_emission_for_nonempty_text:
  assumes "chosen_text item \<noteq> Some []"
  shows "w_textEdit (fst (asCompletionItem conv h item)) =
           (if truthy_boolean (item_fromEdit item) \<and> chosen_text item \<noteq> None \<and>
               chosen_range item \<noteq> None
            then Some \<lparr>wedit_range = the (chosen_range item),
                       wedit_newText = the (chosen_text item)\<rparr>
            else None) \<and>
         w_insertText (fst (asCompletionItem conv h item)) =
           (if truthy_boolean (item_fromEdit item) \<and> chosen_text item \<noteq> None \<and>
               chosen_range item \<noteq> None
            then None else chosen_text item)"
  using assms
  by (cases "chosen_text item"; cases "chosen_range item")
     (simp_all add: asCompletionItem_textEdit asCompletionItem_insertText
        truthy_string_def truthy_object_def)

text \<open>
  C2. The claim has a flagged item with a text and a range converted to a text edit.
  The code at an item flagged \<open>fromEdit\<close> whose text edit has a range and the empty
  text: the guard \<open>source.fromEdit && text && range\<close> takes the empty text for an
  absent one, so the wire item has no text edit, the range is lost and the empty text
  is its \<open>insertText\<close>.
\<close>

theorem empty_text_edit_is_dropped:
  "w_textEdit (fst (asCompletionItem nullConverter []
      ((ProtocolCompletionItem_new ''x'')
         \<lparr>item_textEdit := Some \<lparr>edit_range = Range_new 0 0 0 3, edit_newText = ''''\<rparr>,
          item_fromEdit := Some True\<rparr>))) = None \<and>
   w_insertText (fst (asCompletionItem nullConverter []
      ((ProtocolCompletionItem_new ''x'')
         \<lparr>item_textEdit := Some \<lparr>edit_range = Range_new 0 0 0 3, edit_newText = ''''\<rparr>,
          item_fromEdit := Some True\<rparr>))) = Some ''''"
  by (simp add: asCompletionItem_textEdit asCompletionItem_insertText chosen_text_def
        ProtocolCompletionItem_new_def CompletionItem_new_def truthy_string_def)

text \<open>
  C8. An item without a text-edit override has no text edit of its own and is not
  flagged \<open>fromEdit\<close>, the flag being how the host marks an item that came with a text
  edit. For such an item, a snippet payload makes the text of the snippet the
  \<open>insertText\<close> of the wire item, verbatim, with the format \<open>Snippet\<close>; a plain string is
  the \<open>insertText\<close> with the format \<open>PlainText\<close>; and in both cases the wire item has no
  text edit.
\<close>

theorem payload_without_text_edit:
  assumes "item_textEdit item = None" and "\<not> truthy_boolean (item_fromEdit item)"
  shows "(item_insertText item = Some (SnippetString v) \<longrightarrow>
            w_insertText (fst (asCompletionItem conv h item)) = Some v \<and>
            w_insertTextFormat (fst (asCompletionItem conv h item)) = Some Snippet \<and>
            w_textEdit (fst (asCompletionItem conv h item)) = None) \<and>
         (item_insertText item = Some (Plain_String s) \<longrightarrow>
            w_insertText (fst (asCompletionItem conv h item)) = Some s \<and>
            w_insertTextFormat (fst (asCompletionItem conv h item)) = Some PlainText \<and>
            w_textEdit (fst (asCompletionItem conv h item)) = None)"
  using assms
  by (simp add: asCompletionItem_textEdit asCompletionItem_insertText
        asCompletionItem_insertTextFormat chosen_text_def chosen_format_def)

text \<open>
  C8 at the item \<open>fooItem\<close> with the plain string \<open>foo\<close>, and with the snippet \<open>foo($1)\<close>.
\<close>

theorem payload_without_text_edit_witness:
  "w_insertText (fst (asCompletionItem nullConverter []
      ((CompletionItem_new ''fooItem'')\<lparr>item_insertText := Some (Plain_String ''foo'')\<rparr>)))
     = Some ''foo'' \<and>
   w_textEdit (fst (asCompletionItem nullConverter []
      ((CompletionItem_new ''fooItem'')\<lparr>item_insertText := Some (Plain_String ''foo'')\<rparr>)))
     = None \<and>
   w_insertTextFormat (fst (asCompletionItem nullConverter []
      ((CompletionItem_new ''fooItem'')\<lparr>item_insertText := Some (Plain_String ''foo'')\<rparr>)))
     = Some PlainText \<and>
   w_insertText (fst (asCompletionItem nullConverter []
      ((CompletionItem_new ''fooItem'')\<lparr>item_insertText := Some (SnippetString ''foo($1)'')\<rparr>)))
     = Some ''foo($1)'' \<and>
   w_insertTextFormat (fst (asCompletionItem nullConverter []
      ((CompletionItem_new ''fooItem'')\<lparr>item_insertText := Some (SnippetString ''foo($1)'')\<rparr>)))
     = Some Snippet"
proof -
  let ?p = "(CompletionItem_new ''fooItem'')\<lparr>item_insertText := Some (Plain_String ''foo'')\<rparr>"
  let ?s = "(CompletionItem_new ''fooItem'')\<lparr>item_insertText := Some (SnippetString ''foo($1)'')\<rparr>"
  have p: "item_textEdit ?p = None" "\<not> truthy_boolean (item_fromEdit ?p)"
    and s: "item_textEdit ?s = None" "\<not> truthy_boolean (item_fromEdit ?s)"
    by (simp_all add: CompletionItem_new_def truthy_boolean_def)
  from payload_without_text_edit [OF p, of "''foo($1)''" nullConverter "[]" "''foo''"]
    payload_without_text_edit [OF s, of "''foo($1)''" nullConverter "[]" "''foo''"]
  show ?thesis by (simp add: CompletionItem_new_def)
qed

text \<open>
  C4. For an item whose kind is a number \<open>k\<close>, the kind of the wire item is the recorded
  original kind when the item is a \<open>ProtocolCompletionItem\<close> with \<open>originalItemKind\<close>
  defined, and \<open>k + 1\<close> otherwise. The kind is an integer below \<open>2 ^ 53\<close> in magnitude, on
  which adding 1 is exact, as is every kind of the host's enumeration.
\<close>

theorem completion_kind:
  assumes "item_kind item = Some k" and "- (2 ^ 53) < k" and "k < 2 ^ 53"
  shows "w_kind (fst (asCompletionItem conv h item)) =
           Some (if item_instanceof_ProtocolCompletionItem item
                 then (case item_originalItemKind item of
                         Some original \<Rightarrow> original
                       | None \<Rightarrow> k + 1)
                 else k + 1)"
  using assms
  by (simp add: asCompletionItem_kind asCompletionItemKind_def number_plus_one_exact
        split: option.split)

text \<open>
  C4 at an item of kind 2 that records the original kind 7, and at a plain item of
  kind 2.
\<close>

theorem completion_kind_witness:
  "w_kind (fst (asCompletionItem nullConverter []
      ((ProtocolCompletionItem_new ''f'')
         \<lparr>item_kind := Some 2, item_originalItemKind := Some 7\<rparr>))) = Some 7 \<and>
   w_kind (fst (asCompletionItem nullConverter []
      ((CompletionItem_new ''f'')\<lparr>item_kind := Some 2\<rparr>))) = Some 3"
  using completion_kind [of "(ProtocolCompletionItem_new ''f'')
         \<lparr>item_kind := Some 2, item_originalItemKind := Some 7\<rparr>" 2 nullConverter "[]"]
        completion_kind [of "(CompletionItem_new ''f'')\<lparr>item_kind := Some 2\<rparr>" 2
          nullConverter "[]"]
  by (simp add: ProtocolCompletionItem_new_def CompletionItem_new_def)


section \<open>Ownership of arrays\<close>

text \<open>
  The commit characters of a wire item are a new array: its address was not in use
  before the conversion, it holds the elements of the host's array, the arrays that
  existed are left as they were, and whatever the host writes to its own array
  afterwards does not change the copy. The command of an item goes through
  \<open>asCommand\<close>, which hands on the address of the host's array of arguments.
\<close>

lemma commit_characters_are_copied:
  assumes "item_commitCharacters item = Some a" and "a < length h"
  shows "w_commitCharacters (fst (asCompletionItem conv h item)) = Some (length h) \<and>
         length h \<noteq> a \<and>
         snd (asCompletionItem conv h item) ! length h = h ! a \<and>
         take (length h) (snd (asCompletionItem conv h item)) = h \<and>
         ((snd (asCompletionItem conv h item))[a := xs]) ! length h = h ! a \<and>
         w_command (fst (asCompletionItem conv h item)) =
           map_option asCommand (item_command item) \<and>
         wcmd_arguments (asCommand c) = cmd_arguments c"
  using assms
  by (simp add: asCompletionItem_commitCharacters asCompletionItem_heap
        asCompletionItem_command asCommand_arguments nth_append)

text \<open>
  C10. The claim has every array of a converted value be a copy. The code at a command
  whose arguments are the host's array at address 0: the arguments of the wire command
  are that same array, not a copy, so that a later write of the host to its array
  shows in the wire command. The sibling path for the commit characters does copy.
\<close>

theorem command_arguments_are_shared:
  "wcmd_arguments (asCommand \<lparr>cmd_title = ''Run'', cmd_command = ''ext.run'',
                              cmd_arguments = Some 0\<rparr>) = Some 0 \<and>
   ([[JString ''a'']][0 := [JString ''b'']]) !
      the (wcmd_arguments (asCommand \<lparr>cmd_title = ''Run'', cmd_command = ''ext.run'',
                                      cmd_arguments = Some 0\<rparr>)) = [JString ''b'']"
  by (simp add: asCommand_arguments)

end
